theory Spec2Isabelle
  imports Complex_Main "HOL-Library.Word"
begin

section \<open>The live session client of AegisMedix (desktop/app/ai-appointment/page.tsx)\<close>

text \<open>
  The component keeps its mutable state in React state cells and in refs, and reacts
  to callbacks of the browser: socket events, capture ticks, timers, the completion of
  a playback unit and user actions. The embedding has one record for the cells and
  refs together with the browser objects they point to, one function per callback, and
  a scheduler that delivers timed events and fires the pending timeouts.

  Numbers: audio samples are JavaScript numbers holding Float32 values. They are
  modelled as \<^typ>\<open>real\<close>, which excludes NaN and the infinities; the products
  \<open>s * 0x8000\<close> and \<open>s * 0x7FFF\<close> of a Float32 value are exact in double precision,
  the sum of squares is taken without rounding. Int16Array elements are
  \<^typ>\<open>16 word\<close>, bytes are \<^typ>\<open>8 word\<close>.
\<close>

type_synonym int16 = "16 word"
type_synonym byte = "8 word"

subsection \<open>Noise gate and Int16 conversion (processor.onaudioprocess, lines 283-306)\<close>

text \<open>The loop \<open>for (i...) sumSquares += inputData[i] * inputData[i]\<close>.\<close>

definition sumSquares :: "real list \<Rightarrow> real" where
  "sumSquares inputData = fold (\<lambda>x acc. acc + x * x) inputData 0"

text \<open>
  \<open>Math.sqrt(sumSquares / inputData.length)\<close>. For an empty window the quotient is
  \<open>0 / 0 = NaN\<close>, written \<open>None\<close>; every comparison with NaN is false.
\<close>

definition rms :: "real list \<Rightarrow> real option" where
  "rms inputData =
     (if length inputData = 0 then None
      else Some (sqrt (sumSquares inputData / real (length inputData))))"

definition NOISE_THRESHOLD :: real where
  "NOISE_THRESHOLD = 0.02"

definition below_threshold :: "real option \<Rightarrow> bool" where
  "below_threshold r = (case r of None \<Rightarrow> False | Some v \<Rightarrow> v < NOISE_THRESHOLD)"

text \<open>
  Storing a number into an Int16Array: truncation towards zero, then reduction
  modulo \<open>2 ^ 16\<close>.
\<close>

definition trunc :: "real \<Rightarrow> int" where
  "trunc x = (if x < 0 then \<lceil>x\<rceil> else \<lfloor>x\<rfloor>)"

definition to_int16 :: "real \<Rightarrow> int16" where
  "to_int16 x = word_of_int (trunc x)"

text \<open>\<open>Math.max(-1, Math.min(1, x))\<close> and \<open>s < 0 ? s * 0x8000 : s * 0x7FFF\<close>.\<close>

definition clamp :: "real \<Rightarrow> real" where
  "clamp x = max (- 1) (min 1 x)"

definition scale :: "real \<Rightarrow> real" where
  "scale s = (if s < 0 then s * 32768 else s * 32767)"

definition convert_sample :: "real \<Rightarrow> int16" where
  "convert_sample x = to_int16 (scale (clamp x))"

text \<open>The conversion loop, writing \<open>pcmData[i]\<close> for \<open>i\<close> from the given index on.\<close>

function convert_loop :: "nat \<Rightarrow> real list \<Rightarrow> int16 list \<Rightarrow> int16 list" where
  "convert_loop i inputData pcmData =
     (if i < length inputData
      then convert_loop (Suc i) inputData (pcmData[i := convert_sample (inputData ! i)])
      else pcmData)"
  by pat_completeness auto
termination
  by (relation "measure (\<lambda>(i, inputData, pcmData). length inputData - i)") auto

text \<open>
  \<open>new Int16Array(inputData.length)\<close> is zero-filled; below the threshold the
  array is filled with zeros, otherwise the loop converts every sample.
\<close>

definition gate_closed :: "real list \<Rightarrow> bool" where
  "gate_closed inputData = below_threshold (rms inputData)"

definition encode_window :: "real list \<Rightarrow> int16 list" where
  "encode_window inputData =
     (let pcmData = replicate (length inputData) 0
      in if gate_closed inputData
         then map (\<lambda>_. 0) pcmData
         else convert_loop 0 inputData pcmData)"

text \<open>
  \<open>new Uint8Array(pcmData.buffer)\<close>: the bytes of the array in the byte order of
  the platform, little-endian on every platform browsers run on.
\<close>

definition bytes_of_int16 :: "int16 \<Rightarrow> byte list" where
  "bytes_of_int16 w = [ucast w, ucast (drop_bit 8 w)]"

definition buffer_bytes :: "int16 list \<Rightarrow> byte list" where
  "buffer_bytes pcmData = concat (map bytes_of_int16 pcmData)"

subsection \<open>Inbound PCM (processAudioQueue, lines 410-420 and 474-477)\<close>

text \<open>
  The loop \<open>combined.set(new Uint8Array(chunk), offset); offset += chunk.byteLength\<close>
  over the queued chunks.
\<close>

definition combine :: "byte list list \<Rightarrow> byte list" where
  "combine allChunks = fold (\<lambda>chunk combined. combined @ chunk) allChunks []"

text \<open>
  \<open>new Int16Array(combined.buffer)\<close> reads pairs of bytes, low byte first. It
  throws a RangeError when the byte length is odd; the caller tests that.
\<close>

fun int16_view :: "byte list \<Rightarrow> int16 list" where
  "int16_view (lo # hi # bs) = word_cat hi lo # int16_view bs"
| "int16_view _ = []"

text \<open>\<open>float32Data[i] = int16Data[i] / 32768.0\<close>.\<close>

definition decode_sample :: "int16 \<Rightarrow> real" where
  "decode_sample w = real_of_int (sint w) / 32768"

subsection \<open>The reference encoder of the specification\<close>




subsection \<open>Session state\<close>

datatype SessionStatus = Idle | Connecting | Connected | Speaking | Listening | Ended | Error

datatype readyState = CONNECTING | OPEN | CLOSING | CLOSED

datatype ctx_state = Suspended | Running | Closed

datatype js_error = SyntaxError | TypeError | RangeError

text \<open>
  A JSON payload field. A string is given by what \<open>atob\<close> makes of it: the decoded
  bytes, or no bytes at all when \<open>atob\<close> throws.
\<close>

datatype json_data = Undefined | Base64 "byte list" | Text string | Object string

text \<open>
  The text of a socket message as \<open>JSON.parse\<close> sees it: not JSON, \<open>null\<close>, a
  number, string or boolean, or an object, of which the handler reads the properties
  \<open>type\<close>, \<open>status\<close>, \<open>data\<close>, \<open>content\<close> and \<open>message\<close>.
\<close>

record message =
  mtype :: "string option"
  mstatus :: "string option"
  mdata :: json_data
  mcontent :: "string option"
  mmessage :: "string option"

datatype raw = NotJson | JsonNull | JsonScalar | JsonObject message

text \<open>
  Outbound frames. The \<open>data\<close> of an audio or video frame is the base64 text of
  the bytes given here.
\<close>

datatype frame = ConfigFrame bool | AudioFrame "byte list" nat | VideoFrame "byte list" | EndFrame

datatype resource = SourceNode nat | PlaybackContext nat | CaptureContext | MediaStream | Socket nat

text \<open>
  What the component does to the outside, in order: a frame sent on a socket, a
  playback unit started on a source node with its samples, the completion callback of
  a node, a write of the phase, an entry into the cleanup routine, a resource released
  by it, and an exception that left a callback uncaught.
\<close>

datatype effect =
    Send nat frame
  | Play nat "real list"
  | Completed nat
  | SetStatus SessionStatus
  | Reaper
  | Release resource
  | Uncaught js_error

datatype media = Granted | Denied string

record session =
  sessionStatus :: SessionStatus
  statusMessage :: string
  errorText :: "string option"
  sessionSummary :: "json_data option"
  enableVideo :: bool
  wsRef :: "nat option"
  audioContextRef :: bool
  mediaStreamRef :: bool
  videoRef :: bool
  canvasRef :: bool
  audioQueueRef2 :: "byte list list"
  isPlayingAudioRef :: bool
  activeAudioContextRef :: "nat option"
  activeSourceNodeRef :: "nat option"
  isSessionActiveRef :: bool
  sockets :: "(readyState \<times> SessionStatus) list"
  contexts :: "ctx_state list"
  nodes :: nat
  processors :: nat
  videoIntervals :: nat
  startPending :: "SessionStatus option"
  awaiting :: "(byte list \<times> nat) list"
  timers :: "nat list"
  clock :: nat
  log :: "effect list"

text \<open>
  The fields up to \<open>isSessionActiveRef\<close> are the state cells and refs of the
  component. The others are the browser's side: the sockets created so far, each with
  its \<open>readyState\<close> and the \<open>sessionStatus\<close> its handlers closed over; the playback
  contexts created so far; the number of source nodes, script processors and video
  intervals created; the suspended continuation of \<open>startLiveSession\<close> (waiting for
  \<open>getUserMedia\<close>); the suspended continuations of \<open>processAudioQueue\<close>, each with
  its local \<open>combined\<close> and \<open>playbackContext\<close>; the due times of the pending
  \<open>setTimeout\<close> calls; the time in milliseconds; and the effects so far.
  The canvas is always mounted; the video element is mounted with the view of an
  active session when video is enabled, and \<open>videoRef\<close> is taken as present then.

  A device oracle tells for every time whether the calls to the output device made at
  that time succeed.
\<close>

type_synonym device = "nat \<Rightarrow> bool"

definition init :: "bool \<Rightarrow> session" where
  "init video =
     \<lparr> sessionStatus = Idle, statusMessage = [], errorText = None, sessionSummary = None,
       enableVideo = video, wsRef = None, audioContextRef = False, mediaStreamRef = False,
       videoRef = video, canvasRef = True, audioQueueRef2 = [], isPlayingAudioRef = False,
       activeAudioContextRef = None, activeSourceNodeRef = None, isSessionActiveRef = False,
       sockets = [], contexts = [], nodes = 0, processors = 0, videoIntervals = 0,
       startPending = None, awaiting = [], timers = [], clock = 0, log = [] \<rparr>"

definition emit :: "effect \<Rightarrow> session \<Rightarrow> session" where
  "emit e s = s\<lparr>log := log s @ [e]\<rparr>"

definition setSessionStatus :: "SessionStatus \<Rightarrow> session \<Rightarrow> session" where
  "setSessionStatus p s = emit (SetStatus p) (s\<lparr>sessionStatus := p\<rparr>)"

text \<open>\<open>wsRef.current?.readyState === WebSocket.OPEN\<close>.\<close>

definition ws_open :: "session \<Rightarrow> bool" where
  "ws_open s =
     (case wsRef s of None \<Rightarrow> False
      | Some k \<Rightarrow> k < length (sockets s) \<and> fst (sockets s ! k) = OPEN)"

definition set_ready :: "nat \<Rightarrow> readyState \<Rightarrow> session \<Rightarrow> session" where
  "set_ready k r s =
     (if k < length (sockets s)
      then s\<lparr>sockets := (sockets s)[k := (r, snd (sockets s ! k))]\<rparr> else s)"

subsection \<open>cleanup (lines 90-133)\<close>

text \<open>
  Every call that can fail is absorbed where it is made: \<open>stop()\<close> and the close of
  the playback context are inside \<open>try\<close>, both \<open>close()\<close> promises carry a
  \<open>catch\<close>, and stopping a track or closing a socket without arguments does not
  throw. Closing a socket that is not closed yet leaves it \<open>CLOSING\<close>.
\<close>

definition stop_playback :: "session \<Rightarrow> session" where
  "stop_playback s =
     (case activeSourceNodeRef s of
        None \<Rightarrow> s
      | Some n \<Rightarrow> (emit (Release (SourceNode n)) s)\<lparr>activeSourceNodeRef := None\<rparr>)"

definition close_playback :: "session \<Rightarrow> session" where
  "close_playback s =
     (case activeAudioContextRef s of
        None \<Rightarrow> s
      | Some c \<Rightarrow> (emit (Release (PlaybackContext c)) s)
           \<lparr>contexts := (contexts s)[c := Closed], activeAudioContextRef := None\<rparr>)"

definition clear_queue :: "session \<Rightarrow> session" where
  "clear_queue s = s\<lparr>audioQueueRef2 := [], isPlayingAudioRef := False\<rparr>"

definition close_capture :: "session \<Rightarrow> session" where
  "close_capture s =
     (if audioContextRef s
      then (emit (Release CaptureContext) s)\<lparr>audioContextRef := False\<rparr> else s)"

definition stop_streams :: "session \<Rightarrow> session" where
  "stop_streams s =
     (if mediaStreamRef s
      then (emit (Release MediaStream) s)\<lparr>mediaStreamRef := False\<rparr> else s)"

definition close_socket :: "session \<Rightarrow> session" where
  "close_socket s =
     (case wsRef s of
        None \<Rightarrow> s
      | Some k \<Rightarrow>
          (emit (Release (Socket k))
             (if k < length (sockets s) \<and> fst (sockets s ! k) \<noteq> CLOSED
              then set_ready k CLOSING s else s))\<lparr>wsRef := None\<rparr>)"

text \<open>The routine: its blocks in the order of the source.\<close>

definition cleanup :: "session \<Rightarrow> session" where
  "cleanup s =
     close_socket (stop_streams (close_capture (clear_queue (close_playback (stop_playback
       ((emit Reaper s)\<lparr>isSessionActiveRef := False\<rparr>))))))"

subsection \<open>startLiveSession (lines 148-228)\<close>

text \<open>
  Up to the \<open>await\<close> of \<open>getUserMedia\<close>; the argument tells whether a user is
  logged in. The handlers created later close over the \<open>sessionStatus\<close> of the
  render the call was made from.
\<close>

definition startLiveSession :: "bool \<Rightarrow> session \<Rightarrow> session" where
  "startLiveSession user s =
     (if \<not> user then s\<lparr>errorText := Some ''Please log in to use this feature.''\<rparr>
      else
        (let s1 = (setSessionStatus Connecting s)\<lparr>errorText := None\<rparr>;
             s2 = (setSessionStatus Connecting s1)\<lparr>errorText := None\<rparr>
         in s2\<lparr>statusMessage := ''Connecting to Dr. Aegis...'',
               isSessionActiveRef := True,
               startPending := Some (sessionStatus s)\<rparr>))"

text \<open>
  After the \<open>await\<close>: the \<open>catch\<close> branch when the devices are refused, otherwise
  the stream, the capture context and a new socket in state \<open>CONNECTING\<close> (the
  constructors of the context and of the socket are taken to succeed).
\<close>

definition startLiveSession_resume :: "media \<Rightarrow> SessionStatus \<Rightarrow> session \<Rightarrow> session" where
  "startLiveSession_resume m closed_over s =
     (case m of
        Denied msg \<Rightarrow>
          setSessionStatus Error
            (s\<lparr>errorText := Some (if msg = [] then ''Failed to access microphone'' else msg)\<rparr>)
      | Granted \<Rightarrow>
          s\<lparr>mediaStreamRef := True, audioContextRef := True,
            wsRef := Some (length (sockets s)),
            sockets := sockets s @ [(CONNECTING, closed_over)]\<rparr>)"

subsection \<open>Capture (lines 270-358)\<close>

definition startAudioCapture :: "session \<Rightarrow> session" where
  "startAudioCapture s =
     (if \<not> audioContextRef s \<or> \<not> mediaStreamRef s \<or> wsRef s = None then s
      else (setSessionStatus Listening (s\<lparr>processors := Suc (processors s)\<rparr>))
             \<lparr>statusMessage := ''Listening... Speak to Dr. Aegis''\<rparr>)"

definition startVideoCapture :: "session \<Rightarrow> session" where
  "startVideoCapture s =
     (if \<not> canvasRef s \<or> \<not> videoRef s \<or> wsRef s = None then s
      else s\<lparr>videoIntervals := Suc (videoIntervals s)\<rparr>)"

definition onaudioprocess :: "real list \<Rightarrow> session \<Rightarrow> session" where
  "onaudioprocess inputData s =
     (if \<not> ws_open s then s
      else emit (Send (the (wsRef s)) (AudioFrame (buffer_bytes (encode_window inputData)) 16000)) s)"

definition captureFrame :: "byte list \<Rightarrow> session \<Rightarrow> session" where
  "captureFrame jpeg s =
     (if \<not> ws_open s then s else emit (Send (the (wsRef s)) (VideoFrame jpeg)) s)"

subsection \<open>Playback (lines 404-548)\<close>

text \<open>
  \<open>processAudioQueue\<close> runs up to its first \<open>await\<close>. It awaits when it creates
  the playback context (\<open>enumerateDevices\<close>, \<open>setSinkId\<close>) and when the context is
  suspended (\<open>resume\<close>); nothing between these awaits reads or writes a ref, so they
  are one suspension here. The part after the awaits is
  \<open>processAudioQueue_finish\<close>, which runs at once when there is nothing to await.

  A failure of the output device throws inside \<open>try\<close> and ends in the \<open>catch\<close>
  branch, as does \<open>createBuffer\<close> for a buffer of no samples; the failure is taken
  at the first call to the device. The RangeError of \<open>new Int16Array\<close> on an odd
  number of bytes is thrown before \<open>try\<close>. A context is created suspended and runs
  once the awaits are over.
\<close>

definition processAudioQueue_finish :: "device \<Rightarrow> byte list \<times> nat \<Rightarrow> session \<Rightarrow> session" where
  "processAudioQueue_finish dev k s =
     (let combined = fst k; c = snd k in
      if \<not> dev (clock s) then s\<lparr>isPlayingAudioRef := False\<rparr>
      else
        let s1 = (if c < length (contexts s) \<and> contexts s ! c = Suspended
                  then s\<lparr>contexts := (contexts s)[c := Running]\<rparr> else s)
        in if \<not> isSessionActiveRef s1 then s1\<lparr>isPlayingAudioRef := False\<rparr>
           else
             let float32Data = map decode_sample (int16_view combined)
             in if float32Data = [] then s1\<lparr>isPlayingAudioRef := False\<rparr>
                else
                  let n = nodes s1;
                      s2 = s1\<lparr>nodes := Suc n, activeSourceNodeRef := Some n\<rparr>
                  in if \<not> isSessionActiveRef s2 then s2 else emit (Play n float32Data) s2)"

definition usable_context :: "session \<Rightarrow> nat option" where
  "usable_context s =
     (case activeAudioContextRef s of
        None \<Rightarrow> None
      | Some c \<Rightarrow> if c < length (contexts s) \<and> contexts s ! c \<noteq> Closed then Some c else None)"

definition processAudioQueue :: "device \<Rightarrow> session \<Rightarrow> js_error option \<times> session" where
  "processAudioQueue dev s =
     (if \<not> isSessionActiveRef s \<or> isPlayingAudioRef s \<or> length (audioQueueRef2 s) = 0
      then (None, s)
      else
        let allChunks = audioQueueRef2 s;
            s1 = s\<lparr>isPlayingAudioRef := True, audioQueueRef2 := []\<rparr>;
            combined = combine allChunks
        in if odd (length combined) then (Some RangeError, s1)
           else
             (case usable_context s1 of
                None \<Rightarrow>
                  if \<not> dev (clock s1) then (None, s1\<lparr>isPlayingAudioRef := False\<rparr>)
                  else
                    let c = length (contexts s1)
                    in (None, s1\<lparr>contexts := contexts s1 @ [Suspended],
                                 activeAudioContextRef := Some c,
                                 awaiting := awaiting s1 @ [(combined, c)]\<rparr>)
              | Some c \<Rightarrow>
                  if contexts s1 ! c = Suspended
                  then (None, s1\<lparr>awaiting := awaiting s1 @ [(combined, c)]\<rparr>)
                  else (None, processAudioQueue_finish dev (combined, c) s1)))"

text \<open>\<open>sourceNode.onended\<close> of the node with the given number.\<close>

definition onended :: "device \<Rightarrow> nat \<Rightarrow> session \<Rightarrow> js_error option \<times> session" where
  "onended dev n s =
     (let s0 = emit (Completed n) s;
          s1 = s0\<lparr>activeSourceNodeRef :=
                    (if activeSourceNodeRef s0 = Some n then None else activeSourceNodeRef s0)\<rparr>;
          s2 = s1\<lparr>isPlayingAudioRef := False\<rparr>
      in if isSessionActiveRef s2
         then (if length (audioQueueRef2 s2) > 0 then processAudioQueue dev s2
               else if wsRef s2 \<noteq> None
               then (None, (setSessionStatus Listening s2)\<lparr>statusMessage := ''Listening...''\<rparr>)
               else (None, s2))
         else (None, s2))"

text \<open>
  \<open>playAudio\<close>: the \<open>console.log\<close> before \<open>try\<close> reads \<open>base64Audio.length\<close>,
  a TypeError when the field is missing; a failure of \<open>atob\<close> is caught.
\<close>

definition playAudio :: "json_data \<Rightarrow> session \<Rightarrow> js_error option \<times> session" where
  "playAudio d s =
     (case d of
        Undefined \<Rightarrow> (Some TypeError, s)
      | Base64 bytes \<Rightarrow>
          (let s1 = s\<lparr>audioQueueRef2 := audioQueueRef2 s @ [bytes]\<rparr>
           in (None, if \<not> isPlayingAudioRef s1
                     then s1\<lparr>timers := timers s1 @ [clock s1 + 150]\<rparr> else s1))
      | Text t \<Rightarrow> (None, s)
      | Object t \<Rightarrow> (None, s))"

subsection \<open>Socket handlers and user actions (lines 196-268, 551-558, 826-830)\<close>

definition handleServerMessage :: "message \<Rightarrow> session \<Rightarrow> js_error option \<times> session" where
  "handleServerMessage m s =
     (if mtype m = Some ''status'' then
        (if mstatus m = Some ''connected'' then
           (let s1 = (setSessionStatus Connected s)
                       \<lparr>statusMessage := ''Connected! Dr. Aegis is listening...''\<rparr>;
                s2 = startAudioCapture s1
            in (None, if enableVideo s2 then startVideoCapture s2 else s2))
         else if mstatus m = Some ''ended'' then (None, cleanup (setSessionStatus Ended s))
         else (None, s))
      else if mtype m = Some ''audio'' then playAudio (mdata m) (setSessionStatus Speaking s)
      else if mtype m = Some ''text'' then (None, s)
      else if mtype m = Some ''summary'' then (None, s\<lparr>sessionSummary := Some (mdata m)\<rparr>)
      else if mtype m = Some ''error''
      then (None, setSessionStatus Error (s\<lparr>errorText := mmessage m\<rparr>))
      else (None, s))"

definition ws_onopen :: "nat \<Rightarrow> session \<Rightarrow> session" where
  "ws_onopen k s = emit (Send k (ConfigFrame (enableVideo s))) s"

text \<open>
  \<open>ws.onmessage\<close>: \<open>JSON.parse\<close> throws a SyntaxError on text that is not JSON,
  and reading \<open>message.type\<close> of \<open>null\<close> is a TypeError; neither is caught.
\<close>

definition ws_onmessage :: "raw \<Rightarrow> session \<Rightarrow> js_error option \<times> session" where
  "ws_onmessage r s =
     (case r of
        NotJson \<Rightarrow> (Some SyntaxError, s)
      | JsonNull \<Rightarrow> (Some TypeError, s)
      | JsonScalar \<Rightarrow> (None, s)
      | JsonObject m \<Rightarrow> handleServerMessage m s)"

definition ws_onerror :: "session \<Rightarrow> session" where
  "ws_onerror s = setSessionStatus Error (s\<lparr>errorText := Some ''Connection error''\<rparr>)"

text \<open>\<open>ws.onclose\<close> tests the \<open>sessionStatus\<close> its closure holds, not the current one.\<close>

definition ws_onclose :: "nat \<Rightarrow> session \<Rightarrow> session" where
  "ws_onclose k s = (if snd (sockets s ! k) \<noteq> Ended then setSessionStatus Ended s else s)"

definition endSession :: "session \<Rightarrow> session" where
  "endSession s =
     (let s1 = (if ws_open s then emit (Send (the (wsRef s)) EndFrame) s else s)
      in (setSessionStatus Ended (cleanup s1))\<lparr>statusMessage := ''Session ended''\<rparr>)"

definition startNewSession :: "session \<Rightarrow> session" where
  "startNewSession s = setSessionStatus Idle (s\<lparr>sessionSummary := None\<rparr>)"

subsection \<open>Events and the scheduler\<close>

text \<open>
  The units in flight according to the effects: started and not yet completed.
\<close>

definition track :: "nat list \<Rightarrow> effect \<Rightarrow> nat list" where
  "track fl e = (case e of Play n xs \<Rightarrow> fl @ [n] | Completed n \<Rightarrow> removeAll n fl | _ \<Rightarrow> fl)"

definition in_flight :: "effect list \<Rightarrow> nat list" where
  "in_flight es = foldl track [] es"

datatype event =
    ConsentAccept bool
  | MediaResolved media
  | WsOpen nat
  | WsMessage nat raw
  | WsError nat
  | WsClose nat
  | AudioTick "real list"
  | VideoTick "byte list"
  | Resume
  | PlaybackEnded nat
  | OutputSuspended
  | EndSession
  | StartNewSession
  | Unmount

text \<open>
  The browser's part in an event, then the handler. A socket event belongs to a socket
  that exists; \<open>open\<close> comes to a connecting socket and makes it \<open>OPEN\<close>, messages
  come to an open socket, \<open>error\<close> and \<open>close\<close> find the socket \<open>CLOSED\<close>. Capture
  ticks need a script processor, video ticks an interval. The completion callback
  fires for a unit in flight. The consent dialog is opened from the idle view, the End
  button is rendered unless the phase is \<open>idle\<close> or \<open>ended\<close>, the Start New Session
  button in the phase \<open>ended\<close>.
\<close>

definition dispatch :: "device \<Rightarrow> event \<Rightarrow> session \<Rightarrow> js_error option \<times> session" where
  "dispatch dev e s =
     (case e of
        ConsentAccept user \<Rightarrow>
          (None, if sessionStatus s = Idle then startLiveSession user s else s)
      | MediaResolved m \<Rightarrow>
          (case startPending s of
             None \<Rightarrow> (None, s)
           | Some p \<Rightarrow> (None, startLiveSession_resume m p (s\<lparr>startPending := None\<rparr>)))
      | WsOpen k \<Rightarrow>
          (None, if k < length (sockets s) \<and> fst (sockets s ! k) = CONNECTING
                 then ws_onopen k (set_ready k OPEN s) else s)
      | WsMessage k r \<Rightarrow>
          (if k < length (sockets s) \<and> fst (sockets s ! k) = OPEN
           then ws_onmessage r s else (None, s))
      | WsError k \<Rightarrow>
          (None, if k < length (sockets s) then ws_onerror (set_ready k CLOSED s) else s)
      | WsClose k \<Rightarrow>
          (None, if k < length (sockets s) then ws_onclose k (set_ready k CLOSED s) else s)
      | AudioTick w \<Rightarrow> (None, if 0 < processors s then onaudioprocess w s else s)
      | VideoTick jpeg \<Rightarrow> (None, if 0 < videoIntervals s then captureFrame jpeg s else s)
      | Resume \<Rightarrow>
          (case awaiting s of
             [] \<Rightarrow> (None, s)
           | k # ks \<Rightarrow> (None, processAudioQueue_finish dev k (s\<lparr>awaiting := ks\<rparr>)))
      | PlaybackEnded n \<Rightarrow>
          (if n \<in> set (in_flight (log s)) then onended dev n s else (None, s))
      | OutputSuspended \<Rightarrow>
          (None, case usable_context s of
                   None \<Rightarrow> s
                 | Some c \<Rightarrow> s\<lparr>contexts := (contexts s)[c := Suspended]\<rparr>)
      | EndSession \<Rightarrow>
          (None, if sessionStatus s \<noteq> Idle \<and> sessionStatus s \<noteq> Ended then endSession s else s)
      | StartNewSession \<Rightarrow>
          (None, if sessionStatus s = Ended then startNewSession s else s)
      | Unmount \<Rightarrow> (None, cleanup s))"

text \<open>An exception that leaves a callback is reported by the browser and changes nothing.\<close>

definition uncaught :: "js_error option \<times> session \<Rightarrow> session" where
  "uncaught r = (case fst r of None \<Rightarrow> snd r | Some e \<Rightarrow> emit (Uncaught e) (snd r))"

definition step :: "device \<Rightarrow> event \<Rightarrow> session \<Rightarrow> session" where
  "step dev e s = uncaught (dispatch dev e s)"

text \<open>The timeout set by \<open>playAudio\<close> fires at its due time and calls \<open>processAudioQueue\<close>.\<close>

definition timeout :: "device \<Rightarrow> nat \<Rightarrow> session \<Rightarrow> session" where
  "timeout dev d s =
     uncaught (processAudioQueue dev (s\<lparr>timers := remove1 d (timers s), clock := max d (clock s)\<rparr>))"

fun fire :: "device \<Rightarrow> nat \<Rightarrow> nat list \<Rightarrow> session \<Rightarrow> session" where
  "fire dev t [] s = s"
| "fire dev t (d # ds) s = fire dev t ds (if d \<le> t then timeout dev d s else s)"

text \<open>Time passes to \<open>t\<close>: the timeouts due by then fire in the order they were set.\<close>

definition advance :: "device \<Rightarrow> nat \<Rightarrow> session \<Rightarrow> session" where
  "advance dev t s = (fire dev t (timers s) s)\<lparr>clock := max t (clock (fire dev t (timers s) s))\<rparr>"

fun run :: "device \<Rightarrow> (nat \<times> event) list \<Rightarrow> session \<Rightarrow> session" where
  "run dev [] s = s"
| "run dev (te # es) s = run dev es (step dev (snd te) (advance dev (fst te) s))"

subsection \<open>Reading the effects\<close>

fun plays :: "effect list \<Rightarrow> (nat \<times> real list) list" where
  "plays [] = []"
| "plays (Play n xs # es) = (n, xs) # plays es"
| "plays (e # es) = plays es"

fun sends :: "effect list \<Rightarrow> (nat \<times> frame) list" where
  "sends [] = []"
| "sends (Send k f # es) = (k, f) # sends es"
| "sends (e # es) = sends es"

fun writes :: "effect list \<Rightarrow> SessionStatus list" where
  "writes [] = []"
| "writes (SetStatus p # es) = p # writes es"
| "writes (e # es) = writes es"

text \<open>The changes of phase in a list of effects, from a given phase on.\<close>

fun phase_changes :: "SessionStatus \<Rightarrow> effect list \<Rightarrow> (SessionStatus \<times> SessionStatus) list" where
  "phase_changes p [] = []"
| "phase_changes p (SetStatus q # es) =
     (if q = p then phase_changes p es else (p, q) # phase_changes q es)"
| "phase_changes p (e # es) = phase_changes p es"

text \<open>No unit is started while another one is in flight.\<close>

fun overlap_free :: "nat list \<Rightarrow> effect list \<Rightarrow> bool" where
  "overlap_free fl [] = True"
| "overlap_free fl (e # es) =
     ((case e of Play n xs \<Rightarrow> fl = [] | _ \<Rightarrow> True) \<and> overlap_free (track fl e) es)"

subsection \<open>Predicates of the statements\<close>

text \<open>Every device, playback, queue and transport reference is absent.\<close>

definition released :: "session \<Rightarrow> bool" where
  "released s =
     (\<not> isSessionActiveRef s \<and> activeSourceNodeRef s = None \<and> activeAudioContextRef s = None
      \<and> audioQueueRef2 s = [] \<and> \<not> isPlayingAudioRef s \<and> \<not> audioContextRef s
      \<and> \<not> mediaStreamRef s \<and> wsRef s = None)"

text \<open>Messages of the protocol, as parsed objects.\<close>

definition status_message :: "string \<Rightarrow> message" where
  "status_message st =
     \<lparr>mtype = Some ''status'', mstatus = Some st, mdata = Undefined, mcontent = None,
      mmessage = None\<rparr>"

definition audio_message :: "json_data \<Rightarrow> message" where
  "audio_message d =
     \<lparr>mtype = Some ''audio'', mstatus = None, mdata = d, mcontent = None, mmessage = None\<rparr>"

definition error_message :: "string \<Rightarrow> message" where
  "error_message t =
     \<lparr>mtype = Some ''error'', mstatus = None, mdata = Undefined, mcontent = None,
      mmessage = Some t\<rparr>"

definition audio_event :: "nat \<Rightarrow> byte list \<Rightarrow> event" where
  "audio_event k b = WsMessage k (JsonObject (audio_message (Base64 b)))"

fun is_audio :: "event \<Rightarrow> bool" where
  "is_audio (WsMessage k (JsonObject m)) = (mtype m = Some ''audio'')"
| "is_audio e = False"

fun is_connected :: "event \<Rightarrow> bool" where
  "is_connected (WsMessage k (JsonObject m)) =
     (mtype m = Some ''status'' \<and> mstatus m = Some ''connected'')"
| "is_connected e = False"



fun reaping :: "event \<Rightarrow> bool" where
  "reaping EndSession = True"
| "reaping Unmount = True"
| "reaping (WsMessage k (JsonObject m)) =
     (mtype m = Some ''status'' \<and> mstatus m = Some ''ended'')"
| "reaping e = False"

text \<open>The phases written between two states, and the samples of a playback unit.\<close>

definition wl :: "session \<Rightarrow> SessionStatus list" where
  "wl s = writes (log s)"

definition new_writes :: "session \<Rightarrow> session \<Rightarrow> SessionStatus list" where
  "new_writes s s' = drop (length (wl s)) (wl s')"


text \<open>
  A concrete session: an output device that works, and the events that bring a fresh
  component (without video) to the phase \<open>listening\<close> on socket 0.
\<close>

definition works :: device where
  "works t = True"

definition prelude :: "(nat \<times> event) list" where
  "prelude =
     [(0, ConsentAccept True), (10, MediaResolved Granted), (20, WsOpen 0),
      (30, WsMessage 0 (JsonObject (status_message ''connected'')))]"

definition live :: session where
  "live = run works prelude (init False)"


definition pb :: "session \<Rightarrow> bool \<times> (byte list \<times> nat) list \<times> nat list \<times> bool" where
  "pb s = (isPlayingAudioRef s, awaiting s, in_flight (log s), overlap_free [] (log s))"

definition flag_inv :: "session \<Rightarrow> bool" where
  "flag_inv s =
     (overlap_free [] (log s) \<and> length (in_flight (log s)) + length (awaiting s) \<le> 1
      \<and> (in_flight (log s) = [] \<and> awaiting s = [] \<or> isPlayingAudioRef s))"





section \<open>The encoder\<close>

lemma fold_squares: "fold (\<lambda>x acc. acc + x * x) xs a = a + (\<Sum>x\<leftarrow>xs. x * x)"
  by (induction xs arbitrary: a) (simp_all add: add.assoc)

lemma sumSquares_sum: "sumSquares xs = (\<Sum>x\<leftarrow>xs. x\<^sup>2)"
  by (simp add: sumSquares_def fold_squares power2_eq_square)

text \<open>The gate without the square root, for evaluation.\<close>

lemma sqrt_below_threshold: "0 \<le> x \<Longrightarrow> sqrt x < 0.02 \<longleftrightarrow> x < 0.0004"
proof -
  have "sqrt (0.0004 :: real) = 0.02"
    by (rule real_sqrt_unique) (simp_all add: power2_eq_square)
  then show ?thesis
    by (metis real_sqrt_less_iff)
qed

lemma sumSquares_nonneg: "0 \<le> sumSquares xs"
  unfolding sumSquares_sum by (rule sum_list_nonneg) auto

lemma gate_closed_code [code]:
  "gate_closed w = (w \<noteq> [] \<and> sumSquares w / real (length w) < 0.0004)"
proof (cases "w = []")
  case True
  then show ?thesis
    by (simp add: gate_closed_def rms_def below_threshold_def)
next
  case False
  have "gate_closed w = (sqrt (sumSquares w / real (length w)) < 0.02)"
    using False by (simp add: gate_closed_def rms_def below_threshold_def NOISE_THRESHOLD_def)
  also have "\<dots> = (sumSquares w / real (length w) < 0.0004)"
    by (rule sqrt_below_threshold) (simp add: sumSquares_nonneg)
  finally show ?thesis
    using False by simp
qed




lemma clamp_range: "- 1 \<le> clamp x \<and> clamp x \<le> 1"
  by (simp add: clamp_def)

lemma trunc_scale_range:
  "- 1 \<le> x \<Longrightarrow> x \<le> 1 \<Longrightarrow> - 32768 \<le> trunc (scale x) \<and> trunc (scale x) \<le> 32767"
  unfolding trunc_def scale_def
  by (auto simp: le_floor_iff floor_le_iff ceiling_le_iff le_ceiling_iff)

lemma sint_convert_sample: "sint (convert_sample x) = trunc (scale (clamp x))"
proof -
  have "- 32768 \<le> trunc (scale (clamp x)) \<and> trunc (scale (clamp x)) \<le> 32767"
    using trunc_scale_range clamp_range by blast
  then show ?thesis
    unfolding convert_sample_def to_int16_def
    by (simp add: sint_sbintrunc' signed_take_bit_int_eq_self)
qed






lemma convert_sample_near_one: "convert_sample (65535 / 65536) = 32766"
proof -
  have "\<lfloor>(65535 / 65536 * 32767 :: real)\<rfloor> = 32766"
    by (simp add: floor_eq_iff)
  then show ?thesis
    unfolding convert_sample_def to_int16_def scale_def clamp_def trunc_def by simp
qed

text \<open>
  C4, as the specification states it, fails: the sample \<open>65535/65536\<close> is encoded
  as 32766 and decoded as \<open>32766/32768\<close>, one and a half steps of \<open>1/32768\<close> below it.
\<close>

theorem roundtrip_one_lsb_counterexample:
  "- 1 \<le> (65535 / 65536 :: real) \<and> (65535 / 65536 :: real) \<le> 1
   \<and> \<not> \<bar>decode_sample (convert_sample (65535 / 65536)) - 65535 / 65536\<bar> \<le> 1 / 32768"
  by (simp add: convert_sample_near_one decode_sample_def)

text \<open>
  C4, amended. For every sample \<open>s\<close> in \<open>[-1, 1]\<close>, encoding and decoding gives a
  value less than two steps of \<open>1/32768\<close> away from \<open>s\<close>: a negative sample comes
  back at most one step above, a non-negative one less than \<open>(s + 1)/32768\<close> below.
\<close>

theorem roundtrip_two_lsb:
  assumes "- 1 \<le> s" and "s \<le> 1"
  shows "\<bar>decode_sample (convert_sample s) - s\<bar> < 2 / 32768
    \<and> (if s < 0
       then 0 \<le> decode_sample (convert_sample s) - s
          \<and> decode_sample (convert_sample s) - s < 1 / 32768
       else 0 \<le> s - decode_sample (convert_sample s)
          \<and> s - decode_sample (convert_sample s) < (s + 1) / 32768)"
proof -
  have c: "clamp s = s"
    using assms by (simp add: clamp_def)
  have d: "decode_sample (convert_sample s) = real_of_int (trunc (scale s)) / 32768"
    by (simp add: decode_sample_def sint_convert_sample c)
  show ?thesis
  proof (cases "s < 0")
    case True
    then have "0 \<le> decode_sample (convert_sample s) - s
        \<and> decode_sample (convert_sample s) - s < 1 / 32768"
      unfolding d trunc_def scale_def by (auto; linarith)
    with True show ?thesis by auto
  next
    case False
    then have "0 \<le> s - decode_sample (convert_sample s)
        \<and> s - decode_sample (convert_sample s) < (s + 1) / 32768"
      unfolding d trunc_def scale_def by (auto; linarith)
    with False assms show ?thesis by auto
  qed
qed

theorem roundtrip_two_lsb_witness:
  "- 1 \<le> (65535 / 65536 :: real) \<and> (65535 / 65536 :: real) \<le> 1
   \<and> \<bar>decode_sample (convert_sample (65535 / 65536)) - 65535 / 65536\<bar> < 2 / 32768"
  using roundtrip_two_lsb [of "65535 / 65536"] by simp

section \<open>The cleanup routine\<close>

lemma stop_playback_fields:
  "isSessionActiveRef (stop_playback s) = isSessionActiveRef s"
  "activeSourceNodeRef (stop_playback s) = None"
  "activeAudioContextRef (stop_playback s) = activeAudioContextRef s"
  "audioContextRef (stop_playback s) = audioContextRef s"
  "mediaStreamRef (stop_playback s) = mediaStreamRef s"
  "wsRef (stop_playback s) = wsRef s"
  by (simp_all add: stop_playback_def emit_def split: option.split)

lemma close_playback_fields:
  "isSessionActiveRef (close_playback s) = isSessionActiveRef s"
  "activeSourceNodeRef (close_playback s) = activeSourceNodeRef s"
  "activeAudioContextRef (close_playback s) = None"
  "audioContextRef (close_playback s) = audioContextRef s"
  "mediaStreamRef (close_playback s) = mediaStreamRef s"
  "wsRef (close_playback s) = wsRef s"
  by (simp_all add: close_playback_def emit_def split: option.split)

lemma clear_queue_fields:
  "isSessionActiveRef (clear_queue s) = isSessionActiveRef s"
  "activeSourceNodeRef (clear_queue s) = activeSourceNodeRef s"
  "activeAudioContextRef (clear_queue s) = activeAudioContextRef s"
  "audioQueueRef2 (clear_queue s) = []"
  "isPlayingAudioRef (clear_queue s) = False"
  "audioContextRef (clear_queue s) = audioContextRef s"
  "mediaStreamRef (clear_queue s) = mediaStreamRef s"
  "wsRef (clear_queue s) = wsRef s"
  by (simp_all add: clear_queue_def)

lemma close_capture_fields:
  "isSessionActiveRef (close_capture s) = isSessionActiveRef s"
  "activeSourceNodeRef (close_capture s) = activeSourceNodeRef s"
  "activeAudioContextRef (close_capture s) = activeAudioContextRef s"
  "audioQueueRef2 (close_capture s) = audioQueueRef2 s"
  "isPlayingAudioRef (close_capture s) = isPlayingAudioRef s"
  "audioContextRef (close_capture s) = False"
  "mediaStreamRef (close_capture s) = mediaStreamRef s"
  "wsRef (close_capture s) = wsRef s"
  by (simp_all add: close_capture_def emit_def)

lemma stop_streams_fields:
  "isSessionActiveRef (stop_streams s) = isSessionActiveRef s"
  "activeSourceNodeRef (stop_streams s) = activeSourceNodeRef s"
  "activeAudioContextRef (stop_streams s) = activeAudioContextRef s"
  "audioQueueRef2 (stop_streams s) = audioQueueRef2 s"
  "isPlayingAudioRef (stop_streams s) = isPlayingAudioRef s"
  "audioContextRef (stop_streams s) = audioContextRef s"
  "mediaStreamRef (stop_streams s) = False"
  "wsRef (stop_streams s) = wsRef s"
  by (simp_all add: stop_streams_def emit_def)

lemma close_socket_fields:
  "isSessionActiveRef (close_socket s) = isSessionActiveRef s"
  "activeSourceNodeRef (close_socket s) = activeSourceNodeRef s"
  "activeAudioContextRef (close_socket s) = activeAudioContextRef s"
  "audioQueueRef2 (close_socket s) = audioQueueRef2 s"
  "isPlayingAudioRef (close_socket s) = isPlayingAudioRef s"
  "audioContextRef (close_socket s) = audioContextRef s"
  "mediaStreamRef (close_socket s) = mediaStreamRef s"
  "wsRef (close_socket s) = None"
  by (simp_all add: close_socket_def emit_def set_ready_def split: option.split)

lemmas cleanup_stage_fields =
  stop_playback_fields close_playback_fields clear_queue_fields close_capture_fields
  stop_streams_fields close_socket_fields

lemma released_cleanup: "released (cleanup s)"
  by (simp add: released_def cleanup_def cleanup_stage_fields)

lemma cleanup_of_released: "released s \<Longrightarrow> cleanup s = emit Reaper s"
  by (simp add: released_def cleanup_def emit_def stop_playback_def close_playback_def
      clear_queue_def close_capture_def stop_streams_def close_socket_def)

text \<open>
  C7. Whatever was acquired, after the cleanup every device, playback, queue and
  transport reference is absent, and a second cleanup releases nothing and changes
  nothing: it only records that it ran. The routine has no branch that raises.
\<close>

theorem cleanup_idempotent:
  "released (cleanup s)
   \<and> cleanup (cleanup s) = emit Reaper (cleanup s)
   \<and> released (cleanup (cleanup s))
   \<and> (cleanup (cleanup s))\<lparr>log := []\<rparr> = (cleanup s)\<lparr>log := []\<rparr>"
proof -
  have twice: "cleanup (cleanup s) = emit Reaper (cleanup s)"
    by (rule cleanup_of_released) (rule released_cleanup)
  have "(cleanup (cleanup s))\<lparr>log := []\<rparr> = (cleanup s)\<lparr>log := []\<rparr>"
    by (simp add: twice emit_def)
  with twice released_cleanup [of s] released_cleanup [of "cleanup s"] show ?thesis
    by blast
qed

section \<open>Reading effects\<close>


lemma writes_append: "writes (xs @ ys) = writes xs @ writes ys"
  by (induction xs rule: writes.induct) simp_all

lemma in_flight_append: "in_flight (es @ es') = foldl track (in_flight es) es'"
  by (simp add: in_flight_def)

lemma overlap_free_append_gen:
  "overlap_free fl (es @ es') = (overlap_free fl es \<and> overlap_free (foldl track fl es) es')"
  by (induction es arbitrary: fl) (simp_all add: conj_assoc)

lemma overlap_free_append:
  "overlap_free [] (es @ es') = (overlap_free [] es \<and> overlap_free (in_flight es) es')"
  by (simp add: overlap_free_append_gen in_flight_def)

lemmas log_simps = in_flight_append overlap_free_append track_def

lemma uncaught_None: "uncaught (None, s) = s"
  by (simp add: uncaught_def)


section \<open>After the cleanup\<close>













section \<open>The in-flight flag\<close>

lemma flag_inv_pb: "pb s' = pb s \<Longrightarrow> flag_inv s' = flag_inv s"
  by (simp add: pb_def flag_inv_def)

lemma pb_setSessionStatus: "pb (setSessionStatus p s) = pb s"
  by (simp add: setSessionStatus_def pb_def emit_def log_simps)

lemma pb_startLiveSession: "pb (startLiveSession u s) = pb s"
  by (simp add: startLiveSession_def Let_def pb_def setSessionStatus_def emit_def log_simps)

lemma pb_startLiveSession_resume: "pb (startLiveSession_resume m p s) = pb s"
  by (simp add: startLiveSession_resume_def pb_def setSessionStatus_def emit_def log_simps
      split: media.split)

lemma pb_set_ready: "pb (set_ready k r s) = pb s"
  by (simp add: set_ready_def pb_def)

lemma pb_ws_onopen: "pb (ws_onopen k s) = pb s"
  by (simp add: ws_onopen_def pb_def emit_def log_simps)

lemma pb_ws_onerror: "pb (ws_onerror s) = pb s"
  by (simp add: ws_onerror_def pb_setSessionStatus) (simp add: pb_def)

lemma pb_ws_onclose: "pb (ws_onclose k s) = pb s"
  by (simp add: ws_onclose_def pb_setSessionStatus)

lemma pb_onaudioprocess: "pb (onaudioprocess w s) = pb s"
  by (simp add: onaudioprocess_def pb_def emit_def log_simps)

lemma pb_captureFrame: "pb (captureFrame j s) = pb s"
  by (simp add: captureFrame_def pb_def emit_def log_simps)

lemma pb_startNewSession: "pb (startNewSession s) = pb s"
  by (simp add: startNewSession_def pb_setSessionStatus) (simp add: pb_def)

lemma pb_startAudioCapture: "pb (startAudioCapture s) = pb s"
  by (simp add: startAudioCapture_def pb_def setSessionStatus_def emit_def log_simps)

lemma pb_startVideoCapture: "pb (startVideoCapture s) = pb s"
  by (simp add: startVideoCapture_def pb_def)

lemma pb_playAudio: "pb (uncaught (playAudio d s)) = pb s"
  by (cases d) (simp_all add: playAudio_def uncaught_def pb_def emit_def log_simps Let_def)

lemma pb_upd:
  "pb (s\<lparr>statusMessage := m\<rparr>) = pb s" "pb (s\<lparr>sessionSummary := x\<rparr>) = pb s"
  "pb (s\<lparr>errorText := y\<rparr>) = pb s"
  by (simp_all add: pb_def)

lemma pb_handleServerMessage:
  "\<not> (mtype m = Some ''status'' \<and> mstatus m = Some ''ended'') \<Longrightarrow>
   pb (uncaught (handleServerMessage m s)) = pb s"
  unfolding handleServerMessage_def
  by (auto simp add: pb_playAudio pb_setSessionStatus pb_startAudioCapture pb_startVideoCapture
      pb_upd Let_def uncaught_None)

lemma finish_flag_inv:
  "isPlayingAudioRef s \<Longrightarrow> awaiting s = [] \<Longrightarrow> in_flight (log s) = [] \<Longrightarrow>
   overlap_free [] (log s) \<Longrightarrow> flag_inv (processAudioQueue_finish dev k s)"
  by (simp add: processAudioQueue_finish_def flag_inv_def emit_def log_simps Let_def)

lemma processAudioQueue_flag_inv:
  assumes i: "flag_inv s"
  shows "flag_inv (uncaught (processAudioQueue dev s))"
proof (cases "\<not> isSessionActiveRef s \<or> isPlayingAudioRef s \<or> length (audioQueueRef2 s) = 0")
  case True
  with i show ?thesis
    by (simp add: processAudioQueue_def uncaught_None)
next
  case False
  with i have idle: "in_flight (log s) = []" "awaiting s = []" "overlap_free [] (log s)"
    by (auto simp: flag_inv_def)
  let ?s1 = "s\<lparr>isPlayingAudioRef := True, audioQueueRef2 := []\<rparr>"
  have f: "flag_inv (processAudioQueue_finish dev k ?s1)" for k
    using idle by (intro finish_flag_inv) simp_all
  show ?thesis
    using False idle f
    by (simp add: processAudioQueue_def Let_def uncaught_def flag_inv_def emit_def log_simps
        split: option.split)
qed

lemma flag_inv_upd:
  "flag_inv (s\<lparr>timers := ts, clock := c\<rparr>) = flag_inv s"
  "flag_inv (s\<lparr>clock := c\<rparr>) = flag_inv s"
  "flag_inv (s\<lparr>timers := ts\<rparr>) = flag_inv s"
  by (simp_all add: flag_inv_def)

lemma timeout_flag_inv: "flag_inv s \<Longrightarrow> flag_inv (timeout dev d s)"
  unfolding timeout_def by (rule processAudioQueue_flag_inv) (simp add: flag_inv_upd)

lemma onended_flag_inv:
  assumes "flag_inv s" and "n \<in> set (in_flight (log s))"
  shows "flag_inv (uncaught (onended dev n s))"
proof -
  from assms(2) obtain x xs where c: "in_flight (log s) = x # xs"
    by (cases "in_flight (log s)") auto
  with assms have fl: "in_flight (log s) = [n]" "awaiting s = []" "overlap_free [] (log s)"
    by (auto simp: flag_inv_def)
  let ?s2 = "(emit (Completed n) s)\<lparr>activeSourceNodeRef :=
                 (if activeSourceNodeRef (emit (Completed n) s) = Some n then None
                  else activeSourceNodeRef (emit (Completed n) s)),
               isPlayingAudioRef := False\<rparr>"
  have i2: "flag_inv ?s2"
    using fl by (simp add: flag_inv_def emit_def log_simps)
  have "flag_inv (uncaught (processAudioQueue dev ?s2))"
    using i2 by (rule processAudioQueue_flag_inv)
  moreover have "flag_inv ((setSessionStatus Listening ?s2)\<lparr>statusMessage := ''Listening...''\<rparr>)"
    using fl by (simp add: flag_inv_def emit_def setSessionStatus_def log_simps)
  ultimately show ?thesis
    using i2 by (simp add: onended_def Let_def uncaught_None)
qed

lemma step_flag_inv:
  assumes "flag_inv s" and "\<not> reaping e"
  shows "flag_inv (step dev e s)"
proof (cases e)
  case (ConsentAccept u)
  then show ?thesis
    using assms
    by (simp add: step_def dispatch_def uncaught_None flag_inv_pb [OF pb_startLiveSession])
next
  case (MediaResolved m)
  then show ?thesis
    using assms
    by (simp add: step_def dispatch_def uncaught_None flag_inv_pb [OF pb_startLiveSession_resume]
        split: option.split) (simp add: flag_inv_def)
next
  case (WsOpen k)
  then show ?thesis
    using assms
    by (simp add: step_def dispatch_def uncaught_None flag_inv_pb [OF pb_ws_onopen]
        flag_inv_pb [OF pb_set_ready])
next
  case (WsMessage k r)
  show ?thesis
  proof (cases r)
    case (JsonObject m)
    with WsMessage assms(2) have "\<not> (mtype m = Some ''status'' \<and> mstatus m = Some ''ended'')"
      by simp
    then have "flag_inv (uncaught (handleServerMessage m s)) = flag_inv s"
      by (intro flag_inv_pb pb_handleServerMessage)
    with WsMessage JsonObject assms(1) show ?thesis
      by (simp add: step_def dispatch_def ws_onmessage_def uncaught_None)
  qed (use WsMessage assms(1) in \<open>simp_all add: step_def dispatch_def ws_onmessage_def
         uncaught_def flag_inv_def emit_def log_simps\<close>)
next
  case (WsError k)
  then show ?thesis
    using assms
    by (simp add: step_def dispatch_def uncaught_None flag_inv_pb [OF pb_ws_onerror]
        flag_inv_pb [OF pb_set_ready])
next
  case (WsClose k)
  then show ?thesis
    using assms
    by (simp add: step_def dispatch_def uncaught_None flag_inv_pb [OF pb_ws_onclose]
        flag_inv_pb [OF pb_set_ready])
next
  case (AudioTick w)
  then show ?thesis
    using assms
    by (simp add: step_def dispatch_def uncaught_None flag_inv_pb [OF pb_onaudioprocess])
next
  case (VideoTick j)
  then show ?thesis
    using assms
    by (simp add: step_def dispatch_def uncaught_None flag_inv_pb [OF pb_captureFrame])
next
  case Resume
  show ?thesis
  proof (cases "awaiting s")
    case Nil
    with Resume assms show ?thesis
      by (simp add: step_def dispatch_def uncaught_None)
  next
    case (Cons k ks)
    with assms(1) have "isPlayingAudioRef s" "ks = []" "in_flight (log s) = []"
        "overlap_free [] (log s)"
      by (auto simp: flag_inv_def)
    then have "flag_inv (processAudioQueue_finish dev k (s\<lparr>awaiting := ks\<rparr>))"
      by (intro finish_flag_inv) simp_all
    with Resume Cons show ?thesis
      by (simp add: step_def dispatch_def uncaught_None)
  qed
next
  case (PlaybackEnded n)
  then show ?thesis
    using assms onended_flag_inv [of s n dev]
    by (simp add: step_def dispatch_def uncaught_None)
next
  case OutputSuspended
  then show ?thesis
    using assms
    by (simp add: step_def dispatch_def uncaught_None flag_inv_def split: option.split)
next
  case EndSession
  with assms show ?thesis by simp
next
  case StartNewSession
  then show ?thesis
    using assms
    by (simp add: step_def dispatch_def uncaught_None flag_inv_pb [OF pb_startNewSession])
next
  case Unmount
  with assms show ?thesis by simp
qed

lemma fire_flag_inv: "flag_inv s \<Longrightarrow> flag_inv (fire dev t ds s)"
  by (induction ds arbitrary: s) (simp_all add: timeout_flag_inv)

lemma advance_flag_inv: "flag_inv s \<Longrightarrow> flag_inv (advance dev t s)"
  by (simp add: advance_def flag_inv_upd fire_flag_inv)

lemma run_flag_inv:
  "list_all (\<lambda>te. \<not> reaping (snd te)) es \<Longrightarrow> flag_inv s \<Longrightarrow> flag_inv (run dev es s)"
  by (induction es arbitrary: s) (simp_all add: step_flag_inv advance_flag_inv)

lemma flag_inv_init: "flag_inv (init v)"
  by (simp add: flag_inv_def init_def in_flight_def)

text \<open>
  C6, as stated, fails. A unit is in flight with the flag set; the user ends the
  session, and the cleanup clears the flag although the unit has neither completed nor
  failed; a new session is started, and its first unit starts while the completion
  callback of the old one has not fired.
\<close>

theorem flag_cleared_by_cleanup_counterexample:
  "isPlayingAudioRef (run works [(40, audio_event 0 [1, 2]), (200, Resume)] live)
   \<and> in_flight (log (run works [(40, audio_event 0 [1, 2]), (200, Resume)] live)) = [0]
   \<and> \<not> isPlayingAudioRef (run works [(40, audio_event 0 [1, 2]), (200, Resume), (210, EndSession)] live)
   \<and> in_flight (log (run works [(40, audio_event 0 [1, 2]), (200, Resume), (210, EndSession)] live)) = [0]
   \<and> Uncaught RangeError \<notin> set (log (run works [(40, audio_event 0 [1, 2]), (200, Resume), (210, EndSession)] live))
   \<and> in_flight (log (run works
        [(40, audio_event 0 [1, 2]), (200, Resume), (210, EndSession), (220, StartNewSession),
         (230, ConsentAccept True), (240, MediaResolved Granted), (250, WsOpen 1),
         (260, WsMessage 1 (JsonObject (status_message ''connected''))),
         (270, audio_event 1 [3, 4]), (500, Resume)] live)) = [0, 1]
   \<and> \<not> overlap_free [] (log (run works
        [(40, audio_event 0 [1, 2]), (200, Resume), (210, EndSession), (220, StartNewSession),
         (230, ConsentAccept True), (240, MediaResolved Granted), (250, WsOpen 1),
         (260, WsMessage 1 (JsonObject (status_message ''connected''))),
         (270, audio_event 1 [3, 4]), (500, Resume)] live))"
  by code_simp

text \<open>
  C6, amended. As long as the cleanup does not run (no user end action, no peer
  \<open>status:ended\<close>, no unmount), whatever else happens: no playback unit is started
  while another one is in flight, and the in-flight flag is set whenever a unit is in
  flight or a \<open>processAudioQueue\<close> is suspended.
\<close>

theorem no_overlap_within_session:
  assumes "list_all (\<lambda>te. \<not> reaping (snd te)) es"
  shows "overlap_free [] (log (advance dev T (run dev es (init v))))
    \<and> (in_flight (log (advance dev T (run dev es (init v)))) = []
          \<and> awaiting (advance dev T (run dev es (init v))) = []
        \<or> isPlayingAudioRef (advance dev T (run dev es (init v))))"
proof -
  have "flag_inv (advance dev T (run dev es (init v)))"
    using assms by (intro advance_flag_inv run_flag_inv flag_inv_init)
  then show ?thesis
    by (simp add: flag_inv_def)
qed

theorem no_overlap_within_session_witness:
  "list_all (\<lambda>te. \<not> reaping (snd te))
     (prelude @ [(40, audio_event 0 [1, 2]), (200, Resume), (210, audio_event 0 [3, 4]),
                 (300, PlaybackEnded 0)])
   \<and> overlap_free [] (log (advance works 1000 (run works
       (prelude @ [(40, audio_event 0 [1, 2]), (200, Resume), (210, audio_event 0 [3, 4]),
                   (300, PlaybackEnded 0)]) (init False))))
   \<and> map fst (plays (log (advance works 1000 (run works
       (prelude @ [(40, audio_event 0 [1, 2]), (200, Resume), (210, audio_event 0 [3, 4]),
                   (300, PlaybackEnded 0)]) (init False))))) = [0, 1]"
proof -
  let ?es = "prelude @ [(40, audio_event 0 [1, 2]), (200, Resume), (210, audio_event 0 [3, 4]),
                 (300, PlaybackEnded 0)]"
  have h: "list_all (\<lambda>te. \<not> reaping (snd te)) ?es"
    by code_simp
  have p: "map fst (plays (log (advance works 1000 (run works ?es (init False))))) = [0, 1]"
    by code_simp
  from no_overlap_within_session [OF h, of works 1000 False] h p show ?thesis
    by simp
qed

section \<open>A burst of audio messages\<close>























section \<open>Writes of the phase\<close>

lemma wl_emit: "wl (emit e s) = wl s @ writes [e]"
  by (simp add: wl_def emit_def writes_append)

lemma wl_setSessionStatus: "wl (setSessionStatus p s) = wl s @ [p]"
  by (simp add: wl_def setSessionStatus_def emit_def writes_append)

lemma wl_uncaught: "wl (uncaught r) = wl (snd r)"
  by (cases "fst r") (simp_all add: uncaught_def wl_emit)

lemma wl_cleanup_stages:
  "wl (stop_playback s) = wl s" "wl (close_playback s) = wl s" "wl (clear_queue s) = wl s"
  "wl (close_capture s) = wl s" "wl (stop_streams s) = wl s" "wl (close_socket s) = wl s"
  by (simp_all add: wl_def stop_playback_def close_playback_def clear_queue_def close_capture_def
      stop_streams_def close_socket_def set_ready_def emit_def writes_append split: option.split)

lemma wl_cleanup: "wl (cleanup s) = wl s"
  by (simp add: cleanup_def wl_cleanup_stages) (simp add: wl_def emit_def writes_append)

lemma wl_startLiveSession:
  "wl (startLiveSession u s) = wl s @ (if u then [Connecting, Connecting] else [])"
  by (simp add: wl_def startLiveSession_def setSessionStatus_def emit_def writes_append Let_def)

lemma wl_startLiveSession_resume:
  "wl (startLiveSession_resume m p s) = wl s @ (case m of Granted \<Rightarrow> [] | Denied t \<Rightarrow> [Error])"
  by (simp add: wl_def startLiveSession_resume_def setSessionStatus_def emit_def writes_append
      split: media.split)

lemma wl_startAudioCapture:
  "wl (startAudioCapture s) =
     wl s @ (if \<not> audioContextRef s \<or> \<not> mediaStreamRef s \<or> wsRef s = None then []
             else [Listening])"
  by (simp add: wl_def startAudioCapture_def setSessionStatus_def emit_def writes_append)

lemma wl_startVideoCapture: "wl (startVideoCapture s) = wl s"
  by (simp add: wl_def startVideoCapture_def)

lemma wl_set_ready: "wl (set_ready k r s) = wl s"
  by (simp add: wl_def set_ready_def)

lemma wl_ws_onopen: "wl (ws_onopen k s) = wl s"
  by (simp add: ws_onopen_def wl_emit)

lemma wl_ws_onerror: "wl (ws_onerror s) = wl s @ [Error]"
  by (simp add: ws_onerror_def wl_setSessionStatus) (simp add: wl_def)

lemma wl_ws_onclose:
  "wl (ws_onclose k s) = wl s @ (if snd (sockets s ! k) \<noteq> Ended then [Ended] else [])"
  by (simp add: ws_onclose_def wl_setSessionStatus)

lemma wl_onaudioprocess: "wl (onaudioprocess w s) = wl s"
  by (simp add: onaudioprocess_def wl_emit)

lemma wl_captureFrame: "wl (captureFrame j s) = wl s"
  by (simp add: captureFrame_def wl_emit)

lemma wl_finish: "wl (processAudioQueue_finish dev k s) = wl s"
  by (simp add: wl_def processAudioQueue_finish_def Let_def emit_def writes_append)

lemma wl_upd:
  "wl (s\<lparr>statusMessage := m\<rparr>) = wl s" "wl (s\<lparr>errorText := x\<rparr>) = wl s"
  "wl (s\<lparr>sessionSummary := y\<rparr>) = wl s" "wl (s\<lparr>awaiting := w\<rparr>) = wl s"
  "wl (s\<lparr>startPending := sp\<rparr>) = wl s" "wl (s\<lparr>contexts := cs\<rparr>) = wl s"
  "wl (s\<lparr>timers := ts, clock := c\<rparr>) = wl s"
  "wl (s\<lparr>isPlayingAudioRef := b, audioQueueRef2 := q\<rparr>) = wl s"
  "wl (s\<lparr>isPlayingAudioRef := b\<rparr>) = wl s"
  by (simp_all add: wl_def)

lemma wl_processAudioQueue: "wl (snd (processAudioQueue dev s)) = wl s"
  by (simp add: processAudioQueue_def Let_def wl_upd wl_finish split: option.split)
     (simp add: wl_def)

lemma wl_playAudio: "wl (snd (playAudio d s)) = wl s"
  by (cases d) (simp_all add: playAudio_def Let_def wl_def)

lemma wl_onended:
  "wl (snd (onended dev n s)) = wl s \<or> wl (snd (onended dev n s)) = wl s @ [Listening]"
  by (simp add: onended_def Let_def wl_processAudioQueue wl_setSessionStatus wl_upd)
     (simp add: wl_def emit_def writes_append)

lemma wl_endSession: "wl (endSession s) = wl s @ [Ended]"
  by (simp add: endSession_def Let_def wl_upd wl_setSessionStatus wl_cleanup wl_emit)

lemma wl_startNewSession: "wl (startNewSession s) = wl s @ [Idle]"
  by (simp add: startNewSession_def wl_setSessionStatus wl_upd)

lemma wl_handleServerMessage:
  "wl (snd (handleServerMessage m s)) =
     wl s @ (if mtype m = Some ''status''
             then (if mstatus m = Some ''connected''
                   then Connected # (if \<not> audioContextRef s \<or> \<not> mediaStreamRef s \<or> wsRef s = None
                                     then [] else [Listening])
                   else if mstatus m = Some ''ended'' then [Ended] else [])
             else if mtype m = Some ''audio'' then [Speaking]
             else if mtype m = Some ''error'' then [Error] else [])"
  by (simp add: handleServerMessage_def Let_def wl_playAudio wl_setSessionStatus wl_cleanup
      wl_startAudioCapture wl_startVideoCapture wl_upd)
     (auto simp add: setSessionStatus_def emit_def)

lemmas wl_plain =
  wl_startLiveSession wl_startLiveSession_resume wl_ws_onopen wl_set_ready wl_ws_onerror
  wl_ws_onclose wl_onaudioprocess wl_captureFrame wl_finish wl_upd wl_endSession
  wl_startNewSession wl_cleanup

lemma step_writes_speaking:
  assumes a: "Speaking \<in> set (new_writes s (step dev e s))"
  shows "is_audio e"
proof (cases e)
  case (WsMessage k r)
  show ?thesis
  proof (cases r)
    case (JsonObject m)
    show ?thesis
      using a WsMessage JsonObject
      by (auto simp add: step_def dispatch_def ws_onmessage_def new_writes_def wl_uncaught
          wl_handleServerMessage split: if_splits)
  qed (use a WsMessage in \<open>simp_all add: step_def dispatch_def ws_onmessage_def new_writes_def
        wl_uncaught\<close>)
next
  case (PlaybackEnded n)
  then show ?thesis
    using a wl_onended [of dev n s]
    by (auto simp add: step_def dispatch_def new_writes_def wl_uncaught split: if_splits)
qed (use a in \<open>auto simp add: step_def dispatch_def uncaught_None new_writes_def wl_plain
      split: if_splits option.splits list.splits media.splits\<close>)

lemma step_writes_connected:
  assumes a: "Connected \<in> set (new_writes s (step dev e s))"
  shows "is_connected e"
proof (cases e)
  case (WsMessage k r)
  show ?thesis
  proof (cases r)
    case (JsonObject m)
    show ?thesis
      using a WsMessage JsonObject
      by (auto simp add: step_def dispatch_def ws_onmessage_def new_writes_def wl_uncaught
          wl_handleServerMessage split: if_splits)
  qed (use a WsMessage in \<open>simp_all add: step_def dispatch_def ws_onmessage_def new_writes_def
        wl_uncaught\<close>)
next
  case (PlaybackEnded n)
  then show ?thesis
    using a wl_onended [of dev n s]
    by (auto simp add: step_def dispatch_def new_writes_def wl_uncaught split: if_splits)
qed (use a in \<open>auto simp add: step_def dispatch_def uncaught_None new_writes_def wl_plain
      split: if_splits option.splits list.splits media.splits\<close>)

lemma timeout_writes: "new_writes s (timeout dev d s) = []"
  by (simp add: timeout_def new_writes_def wl_uncaught wl_processAudioQueue wl_upd)

lemma audio_writes:
  assumes "k < length (sockets s)" and "fst (sockets s ! k) = OPEN"
  shows "new_writes s (step dev (WsMessage k (JsonObject (audio_message a))) s) = [Speaking]"
  using assms
  by (simp add: step_def dispatch_def ws_onmessage_def new_writes_def wl_uncaught
      wl_handleServerMessage audio_message_def)

lemma connected_writes:
  assumes "k < length (sockets s)" and "fst (sockets s ! k) = OPEN"
  shows "take 1 (new_writes s
      (step dev (WsMessage k (JsonObject (status_message ''connected''))) s)) = [Connected]"
  using assms
  by (simp add: step_def dispatch_def ws_onmessage_def new_writes_def wl_uncaught
      wl_handleServerMessage status_message_def)

lemma new_session_idle:
  "sessionStatus s = Ended \<Longrightarrow> sessionStatus (step dev StartNewSession s) = Idle"
  by (simp add: step_def dispatch_def uncaught_None startNewSession_def setSessionStatus_def
      emit_def)

lemma close_ended:
  "k < length (sockets s) \<Longrightarrow> snd (sockets s ! k) \<noteq> Ended \<Longrightarrow>
   sessionStatus (step dev (WsClose k) s) = Ended"
  by (simp add: step_def dispatch_def uncaught_None ws_onclose_def set_ready_def
      setSessionStatus_def emit_def)

text \<open>
  C2, as stated, fails. After the session has come to \<open>listening\<close>: a peer
  \<open>error\<close> message, then an \<open>audio\<close> message and a second \<open>status:connected\<close> on
  the socket that is still open, a transport error with the close after it, and the
  Start New Session action. The phase leaves \<open>error\<close> for \<open>speaking\<close>, enters
  \<open>connected\<close> from \<open>speaking\<close>, leaves \<open>error\<close> for \<open>ended\<close> and \<open>ended\<close> for
  \<open>idle\<close>.
\<close>

theorem phase_order_counterexample:
  "phase_changes Idle (log (run works
      (prelude @
       [(40, WsMessage 0 (JsonObject (error_message ''overloaded''))),
        (50, audio_event 0 [1, 2]),
        (60, WsMessage 0 (JsonObject (status_message ''connected''))),
        (70, WsError 0), (80, WsClose 0), (90, StartNewSession)]) (init False)))
   = [(Idle, Connecting), (Connecting, Connected), (Connected, Listening), (Listening, Error),
      (Error, Speaking), (Speaking, Connected), (Connected, Listening), (Listening, Error),
      (Error, Ended), (Ended, Idle)]"
  by code_simp

text \<open>
  C2, amended. Among all events, only an inbound \<open>audio\<close> message writes the phase
  \<open>speaking\<close> and only an inbound \<open>status:connected\<close> message writes the phase
  \<open>connected\<close>; a timeout writes no phase. Neither handler looks at the current
  phase: on an open socket an \<open>audio\<close> message writes \<open>speaking\<close> and a
  \<open>status:connected\<close> message writes \<open>connected\<close> first, whatever the phase is,
  \<open>ended\<close> and \<open>error\<close> included. These two are not terminal either for the user
  or for the transport: Start New Session takes \<open>ended\<close> to \<open>idle\<close>, and the close
  of a socket takes any phase to \<open>ended\<close> (unless its handler was created in a render
  of the phase \<open>ended\<close>).
\<close>

theorem phase_writes:
  "(Speaking \<in> set (new_writes s (step dev e s)) \<longrightarrow> is_audio e)
   \<and> (Connected \<in> set (new_writes s (step dev e s)) \<longrightarrow> is_connected e)
   \<and> new_writes s (timeout dev d s) = []
   \<and> (k < length (sockets s) \<and> fst (sockets s ! k) = OPEN \<longrightarrow>
        new_writes s (step dev (WsMessage k (JsonObject (audio_message a))) s) = [Speaking]
        \<and> take 1 (new_writes s
             (step dev (WsMessage k (JsonObject (status_message ''connected''))) s)) = [Connected])
   \<and> (sessionStatus s = Ended \<longrightarrow> sessionStatus (step dev StartNewSession s) = Idle)
   \<and> (k < length (sockets s) \<and> snd (sockets s ! k) \<noteq> Ended \<longrightarrow>
        sessionStatus (step dev (WsClose k) s) = Ended)"
  using step_writes_speaking [of s dev e] step_writes_connected [of s dev e]
    timeout_writes [of s dev d] audio_writes [of k s dev a] connected_writes [of k s dev]
    new_session_idle [of s dev] close_ended [of k s dev]
  by blast

text \<open>
  In the phase \<open>error\<close>, after a peer \<open>error\<close> message, the socket is open: an
  \<open>audio\<close> message writes \<open>speaking\<close>.
\<close>

theorem phase_writes_witness:
  "sessionStatus (step works (WsMessage 0 (JsonObject (error_message ''overloaded''))) live) = Error
   \<and> 0 < length (sockets (step works (WsMessage 0 (JsonObject (error_message ''overloaded''))) live))
   \<and> fst (sockets (step works (WsMessage 0 (JsonObject (error_message ''overloaded''))) live) ! 0) = OPEN
   \<and> new_writes (step works (WsMessage 0 (JsonObject (error_message ''overloaded''))) live)
        (step works (WsMessage 0 (JsonObject (audio_message (Base64 [1, 2]))))
           (step works (WsMessage 0 (JsonObject (error_message ''overloaded''))) live)) = [Speaking]
   \<and> is_audio (WsMessage 0 (JsonObject (audio_message (Base64 [1, 2]))))"
proof -
  let ?s = "step works (WsMessage 0 (JsonObject (error_message ''overloaded''))) live"
  let ?e = "WsMessage 0 (JsonObject (audio_message (Base64 [1, 2])))"
  have h: "sessionStatus ?s = Error" "0 < length (sockets ?s)" "fst (sockets ?s ! 0) = OPEN"
    by code_simp+
  note p = phase_writes [of ?s works ?e 0 0 "Base64 [1, 2]"]
  from p h have w: "new_writes ?s (step works ?e ?s) = [Speaking]"
    by blast
  then have "Speaking \<in> set (new_writes ?s (step works ?e ?s))"
    by simp
  with p have "is_audio ?e"
    by blast
  with h w show ?thesis
    by blast
qed

section \<open>Malformed messages\<close>




section \<open>Error paths\<close>

text \<open>
  C1, evaluated where the code departs from it. In the phase \<open>listening\<close>, with the
  stream, the capture context and the socket held, a peer \<open>error\<close> message, a
  transport error and a transport close each change the phase without an entry into
  the cleanup routine, and nothing is released; so does the refusal of the devices
  during \<open>connecting\<close>.
\<close>

theorem error_paths_without_cleanup:
  "sessionStatus live = Listening
   \<and> log (step works (WsMessage 0 (JsonObject (error_message ''overloaded''))) live)
       = log live @ [SetStatus Error]
   \<and> mediaStreamRef (step works (WsMessage 0 (JsonObject (error_message ''overloaded''))) live)
   \<and> audioContextRef (step works (WsMessage 0 (JsonObject (error_message ''overloaded''))) live)
   \<and> ws_open (step works (WsMessage 0 (JsonObject (error_message ''overloaded''))) live)
   \<and> isSessionActiveRef (step works (WsMessage 0 (JsonObject (error_message ''overloaded''))) live)
   \<and> log (step works (WsError 0) live) = log live @ [SetStatus Error]
   \<and> mediaStreamRef (step works (WsError 0) live)
   \<and> log (step works (WsClose 0) live) = log live @ [SetStatus Ended]
   \<and> mediaStreamRef (step works (WsClose 0) live)
   \<and> log (run works [(0, ConsentAccept True), (10, MediaResolved (Denied ''Permission denied''))]
        (init False))
       = [SetStatus Connecting, SetStatus Connecting, SetStatus Error]
   \<and> log (step works (WsMessage 0 (JsonObject (status_message ''ended''))) live)
       = log live @ [SetStatus Ended, Reaper, Release CaptureContext, Release MediaStream,
                     Release (Socket 0)]"
  by code_simp

text \<open>
  C8, evaluated where the code departs from it. After a peer \<open>error\<close> message the
  phase is \<open>error\<close> and the socket is still open: the next capture tick sends its
  frame. After the user's end action the tick sends nothing.
\<close>

theorem frame_sent_after_error:
  "sessionStatus (step works (WsMessage 0 (JsonObject (error_message ''overloaded''))) live) = Error
   \<and> log (step works (AudioTick [1, - 1])
          (step works (WsMessage 0 (JsonObject (error_message ''overloaded''))) live))
     = log (step works (WsMessage 0 (JsonObject (error_message ''overloaded''))) live)
       @ [Send 0 (AudioFrame [255, 127, 0, 128] 16000)]
   \<and> sends (log (run works [(40, EndSession), (50, AudioTick [1, - 1])] live))
     = sends (log live) @ [(0, EndFrame)]"
proof -
  let ?s = "step works (WsMessage 0 (JsonObject (error_message ''overloaded''))) live"
  have f: "sessionStatus ?s = Error" "ws_open ?s" "0 < processors ?s" "wsRef ?s = Some 0"
    by code_simp+
  have enc: "buffer_bytes (encode_window [1, - 1]) = [255, 127, 0, 128]"
    by code_simp
  have tick: "log (step works (AudioTick [1, - 1]) ?s)
      = log ?s @ [Send 0 (AudioFrame [255, 127, 0, 128] 16000)]"
    using f(2-4) by (simp add: step_def dispatch_def onaudioprocess_def uncaught_None emit_def enc)
  have ended: "sends (log (run works [(40, EndSession), (50, AudioTick [1, - 1])] live))
      = sends (log live) @ [(0, EndFrame)]"
    by code_simp
  from f(1) tick ended show ?thesis
    by (intro conjI) assumption+
qed

end
